theory Spec2Isabelle
  imports Main
begin

section \<open>The registration API: a shallow embedding of \<open>api/__init__.py\<close>\<close>

text \<open>
  The module is a FastAPI application with two endpoints in front of a SQL Server
  database reached through the pymssql driver. The driver and the database are outside
  the repository, so what they answer is a parameter of the model (the record
  \<open>driver\<close> below) and every theorem holds for all drivers. What the handlers do to the
  database is recorded as a trace of driver calls; what they write with \<open>logging\<close> is
  recorded as a list of log records.
\<close>

subsection \<open>Exceptions, log records and responses\<close>

text \<open>
  The handlers tell two classes of exception apart: instances of \<open>pymssql.Error\<close> and
  every other instance of \<open>Exception\<close>. Each carries the text \<open>str(e)\<close> that the handler
  interpolates into its log message.
\<close>

datatype exn = PymssqlError string | OtherException string

datatype level = ERROR | CRITICAL

type_synonym log_record = "level \<times> string"

text \<open>\<open>HTTPException(status_code=..., detail=...)\<close>, raised by a handler.\<close>

datatype HTTPException = HTTPException (status_code: nat) (detail: string)

text \<open>
  A handler returns a Python dict with string keys; it is kept as an association list in
  insertion order. A value is a string or the list of the registration numbers, whose
  element type \<open>'v\<close> is whatever the driver hands back for the column.
\<close>

datatype 'v pyval = PStr string | PList "'v list"

type_synonym 'v dict = "(string \<times> 'v pyval) list"

subsection \<open>Formatting an integer as the f-string does\<close>

text \<open>
  \<open>f"...{registration.choice}"\<close> formats a Python \<open>int\<close> in decimal, with a leading
  minus sign for a negative number and no leading zeros.
\<close>

definition digit_char :: "nat \<Rightarrow> char" where
  "digit_char d = ''0123456789'' ! d"

fun str_nat :: "nat \<Rightarrow> string" where
  "str_nat n = (if n < 10 then [digit_char n] else str_nat (n div 10) @ [digit_char (n mod 10)])"

declare str_nat.simps [simp del]

definition str_int :: "int \<Rightarrow> string" where
  "str_int i = (if i < 0 then CHR ''-'' # str_nat (nat (- i)) else str_nat (nat i))"

text \<open>
  Reading a decimal numeral, the other way round: an optional minus sign and then one or
  more digits. It says which integer a string of digits denotes.
\<close>

definition digit_val :: "char \<Rightarrow> nat option" where
  "digit_val c = map_of (zip ''0123456789'' [0, 1, 2, 3, 4, 5, 6, 7, 8, 9]) c"

fun read_digits :: "nat \<Rightarrow> string \<Rightarrow> nat option" where
  "read_digits acc [] = Some acc"
| "read_digits acc (c # cs) =
     (case digit_val c of None \<Rightarrow> None | Some v \<Rightarrow> read_digits (10 * acc + v) cs)"

definition read_nat :: "string \<Rightarrow> nat option" where
  "read_nat s = (if s = [] then None else read_digits 0 s)"

definition read_int :: "string \<Rightarrow> int option" where
  "read_int s =
     (case s of
        [] \<Rightarrow> None
      | c # cs \<Rightarrow>
          if c = CHR ''-'' then map_option (\<lambda>n. - int n) (read_nat cs)
          else map_option int (read_nat s))"

subsection \<open>Configuration read at import time\<close>

text \<open>
  \<open>os.environ.get(name)\<close> is \<open>None\<close> for a variable that is not set, so each of the four
  module globals is an optional string.
\<close>

record config =
  DB_SERVER :: "string option"
  DB_DATABASE :: "string option"
  DB_USER :: "string option"
  DB_PASSWORD :: "string option"



subsection \<open>The driver and the trace of calls\<close>

text \<open>
  The calls the handlers make on pymssql. \<open>Connect\<close> carries the configuration passed as
  \<open>server\<close>, \<open>user\<close>, \<open>password\<close> and \<open>database\<close>, and the \<open>as_dict\<close> flag; \<open>Callproc\<close> the
  procedure name and the argument tuple; \<open>Execute\<close> the statement and its one parameter.
  The two \<open>close\<close> calls are the \<open>__exit__\<close> of the \<open>with\<close> statements.
\<close>

datatype call =
    Connect config bool
  | Cursor
  | Callproc string "string \<times> int"
  | Commit
  | Execute string string
  | Fetchall
  | Cursor_close
  | Connection_close

datatype event = Returned call | Raised call exn

type_synonym trace = "event list"

text \<open>
  What the driver answers during one request. A call either raises (\<open>Some e\<close>, \<open>Inl e\<close>) or
  returns. \<open>callproc\<close> returns a value of some type \<open>'r\<close>; \<open>fetchall\<close> returns the rows of
  the statement that was executed with the given parameter, each row a dict from column
  name to value since the connection is opened with \<open>as_dict=True\<close>. \<open>cursor_close\<close> and
  \<open>connection_close\<close> are what the \<open>close()\<close> of the cursor and of the connection answer
  when a \<open>with\<close> block is left.
\<close>

record ('r, 'v) driver =
  connect :: "config \<Rightarrow> bool \<Rightarrow> exn option"
  cursor :: "exn option"
  callproc :: "string \<Rightarrow> string \<times> int \<Rightarrow> exn + 'r"
  commit :: "exn option"
  execute :: "string \<Rightarrow> string \<Rightarrow> exn option"
  fetchall :: "string \<Rightarrow> string \<Rightarrow> exn + (string \<rightharpoonup> 'v) list"
  cursor_close :: "exn option"
  connection_close :: "exn option"

text \<open>
  The same driver with every value that a procedure call returns replaced by \<open>f\<close> of it;
  which calls raise, and what, stays as it is.
\<close>

definition map_result :: "('r \<Rightarrow> 's) \<Rightarrow> ('r, 'v) driver \<Rightarrow> ('s, 'v) driver" where
  "map_result f d =
     \<lparr>connect = connect d, cursor = cursor d,
      callproc = (\<lambda>name args. case callproc d name args of Inl e \<Rightarrow> Inl e | Inr r \<Rightarrow> Inr (f r)),
      commit = commit d, execute = execute d, fetchall = fetchall d,
      cursor_close = cursor_close d, connection_close = connection_close d\<rparr>"

text \<open>
  Leaving a \<open>with\<close> block: \<open>__exit__\<close> calls \<open>close()\<close>, whether the body returned or raised.
  When \<open>close()\<close> returns, the result of the body stands (an exception of the body goes on
  propagating); when \<open>close()\<close> raises, its exception is the one that propagates.
\<close>

definition exit_block :: "call \<Rightarrow> exn option \<Rightarrow> (exn + 'a) \<times> trace \<Rightarrow> (exn + 'a) \<times> trace" where
  "exit_block c closing body =
     (case closing of
        None \<Rightarrow> (fst body, snd body @ [Returned c])
      | Some e \<Rightarrow> (Inl e, snd body @ [Raised c e]))"

text \<open>\<open>with pymssql.connect(...) as conn:\<close> around a body.\<close>

definition with_connect ::
  "config \<Rightarrow> ('r, 'v) driver \<Rightarrow> bool \<Rightarrow> (exn + 'a) \<times> trace \<Rightarrow> (exn + 'a) \<times> trace" where
  "with_connect cfg d as_dict body =
     (case connect d cfg as_dict of
        Some e \<Rightarrow> (Inl e, [Raised (Connect cfg as_dict) e])
      | None \<Rightarrow> exit_block Connection_close (connection_close d)
                  (fst body, Returned (Connect cfg as_dict) # snd body))"

text \<open>\<open>with conn.cursor() as cursor:\<close> around a body.\<close>

definition with_cursor ::
  "('r, 'v) driver \<Rightarrow> (exn + 'a) \<times> trace \<Rightarrow> (exn + 'a) \<times> trace" where
  "with_cursor d body =
     (case cursor d of
        Some e \<Rightarrow> (Inl e, [Raised Cursor e])
      | None \<Rightarrow> exit_block Cursor_close (cursor_close d) (fst body, Returned Cursor # snd body))"

subsection \<open>POST /register\<close>

record Registration =
  email :: string
  choice :: int

text \<open>What one request produces: the response, the log records and the driver calls.\<close>

record 'a outcome =
  response :: 'a
  log :: "log_record list"
  trace :: trace

type_synonym 'v handler_outcome = "(HTTPException + 'v dict) outcome"

definition sql_proc_name :: string where
  "sql_proc_name = ''sp_RegisterUser_EynatForm''"

text \<open>The body of the \<open>try\<close> up to the \<open>return\<close>: the two \<open>with\<close> blocks.\<close>

definition register_user_try ::
  "config \<Rightarrow> ('r, 'v) driver \<Rightarrow> Registration \<Rightarrow> (exn + unit) \<times> trace" where
  "register_user_try cfg d registration =
     with_connect cfg d False (with_cursor d
       (let c = Callproc sql_proc_name (email registration, choice registration) in
        case callproc d sql_proc_name (email registration, choice registration) of
          Inl e \<Rightarrow> (Inl e, [Raised c e])
        | Inr r \<Rightarrow>
            (case commit d of
               Some e \<Rightarrow> (Inl e, [Returned c, Raised Commit e])
             | None \<Rightarrow> (Inr (), [Returned c, Returned Commit]))))"

text \<open>The handler: the \<open>return\<close> after the blocks and the two \<open>except\<close> clauses.\<close>

definition register_user ::
  "config \<Rightarrow> ('r, 'v) driver \<Rightarrow> Registration \<Rightarrow> 'v handler_outcome" where
  "register_user cfg d registration =
     (case register_user_try cfg d registration of
        (Inr u, tr) \<Rightarrow>
          \<lparr>response = Inr [(''status'', PStr ''success''),
                           (''message'', PStr (''Registered for option '' @ str_int (choice registration)))],
           log = [], trace = tr\<rparr>
      | (Inl (PymssqlError t), tr) \<Rightarrow>
          \<lparr>response = Inl (HTTPException 500 ''Database operation failed.''),
           log = [(ERROR, ''Database error during registration: '' @ t)], trace = tr\<rparr>
      | (Inl (OtherException t), tr) \<Rightarrow>
          \<lparr>response = Inl (HTTPException 500 ''An unexpected server error occurred.''),
           log = [(ERROR, ''An unexpected error occurred: '' @ t)], trace = tr\<rparr>)"

subsection \<open>GET /registrations/{user_email}\<close>

definition sql_query :: string where
  "sql_query = ''SELECT RegNumber FROM EYNATFORM_ALL WHERE email = %s''"

text \<open>
  The comprehension \<open>[row['RegNumber'] for row in rows]\<close>. Subscripting a dict with a key
  it does not have raises \<open>KeyError\<close>, which is not a \<open>pymssql.Error\<close>; its text is the
  quoted key.
\<close>

fun registrations_of :: "(string \<rightharpoonup> 'v) list \<Rightarrow> exn + 'v list" where
  "registrations_of [] = Inr []"
| "registrations_of (row # rows) =
     (case row ''RegNumber'' of
        None \<Rightarrow> Inl (OtherException (CHR 0x27 # ''RegNumber'' @ [CHR 0x27]))
      | Some v \<Rightarrow>
          (case registrations_of rows of
             Inl e \<Rightarrow> Inl e
           | Inr vs \<Rightarrow> Inr (v # vs)))"

definition get_user_registrations_try ::
  "config \<Rightarrow> ('r, 'v) driver \<Rightarrow> string \<Rightarrow> (exn + 'v list) \<times> trace" where
  "get_user_registrations_try cfg d user_email =
     with_connect cfg d True (with_cursor d
       (let x = Execute sql_query user_email in
        case execute d sql_query user_email of
          Some e \<Rightarrow> (Inl e, [Raised x e])
        | None \<Rightarrow>
            (case fetchall d sql_query user_email of
               Inl e \<Rightarrow> (Inl e, [Returned x, Raised Fetchall e])
             | Inr rows \<Rightarrow> (registrations_of rows, [Returned x, Returned Fetchall]))))"

definition get_user_registrations ::
  "config \<Rightarrow> ('r, 'v) driver \<Rightarrow> string \<Rightarrow> 'v handler_outcome" where
  "get_user_registrations cfg d user_email =
     (case get_user_registrations_try cfg d user_email of
        (Inr registrations, tr) \<Rightarrow>
          \<lparr>response = Inr [(''email'', PStr user_email), (''registrations'', PList registrations)],
           log = [], trace = tr\<rparr>
      | (Inl (PymssqlError t), tr) \<Rightarrow>
          \<lparr>response = Inl (HTTPException 500 ''Could not retrieve registration data.''),
           log = [(ERROR, ''Database error fetching registrations: '' @ t)], trace = tr\<rparr>
      | (Inl (OtherException t), tr) \<Rightarrow>
          \<lparr>response = Inl (HTTPException 500 ''An unexpected server error occurred.''),
           log = [(ERROR, ''An unexpected error occurred: '' @ t)], trace = tr\<rparr>)"

subsection \<open>The request body of POST /register\<close>

text \<open>
  The endpoint declares its parameter as \<open>registration: Registration\<close>, a pydantic model
  with the two required fields \<open>email: str\<close> and \<open>choice: int\<close>. FastAPI parses the JSON
  body, validates it against the model and calls the handler with the instance; when
  validation fails it answers with its own validation error and never calls the handler.
\<close>

datatype json =
    JNull
  | JBool bool
  | JNumber int
  | JString string
  | JArray "json list"
  | JObject "(string \<times> json) list"







subsection \<open>Properties of traces\<close>

text \<open>The number of commits that went through: calls of \<open>conn.commit()\<close> that returned.\<close>

definition commits :: "trace \<Rightarrow> nat" where
  "commits tr = count_list tr (Returned Commit)"

fun is_commit :: "event \<Rightarrow> bool" where
  "is_commit (Returned c) = (c = Commit)"
| "is_commit (Raised c e) = (c = Commit)"

fun callproc_returned :: "event \<Rightarrow> bool" where
  "callproc_returned (Returned (Callproc name args)) = True"
| "callproc_returned ev = False"

text \<open>
  Every call of \<open>commit\<close>, whether it returned or raised, comes directly after a call of
  \<open>callproc\<close> that returned. The flag says whether the event before the rest of the trace
  is such a call.
\<close>

fun commit_follows :: "bool \<Rightarrow> trace \<Rightarrow> bool" where
  "commit_follows after_callproc [] = True"
| "commit_follows after_callproc (ev # tr) =
     ((is_commit ev \<longrightarrow> after_callproc) \<and> commit_follows (callproc_returned ev) tr)"

definition commit_follows_callproc :: "trace \<Rightarrow> bool" where
  "commit_follows_callproc tr = commit_follows False tr"


text \<open>A call that raised something other than a \<open>pymssql.Error\<close>.\<close>

fun raised_other :: "event \<Rightarrow> bool" where
  "raised_other (Raised c (OtherException t)) = True"
| "raised_other ev = False"






subsection \<open>Sample databases and requests\<close>

definition cfg0 :: config where
  "cfg0 = \<lparr>DB_SERVER = Some ''db.example.net'', DB_DATABASE = Some ''forms'',
           DB_USER = Some ''api'', DB_PASSWORD = Some ''secret''\<rparr>"



text \<open>A database that answers every call: the procedure returns \<open>r\<close>, the select \<open>rows\<close>.\<close>

definition db_answering :: "'r \<Rightarrow> (string \<rightharpoonup> int) list \<Rightarrow> ('r, int) driver" where
  "db_answering r rows =
     \<lparr>connect = (\<lambda>cfg as_dict. None), cursor = None,
      callproc = (\<lambda>name args. Inr r), commit = None,
      execute = (\<lambda>q p. None), fetchall = (\<lambda>q p. Inr rows),
      cursor_close = None, connection_close = None\<rparr>"

definition db_with_rows :: "(string \<rightharpoonup> int) list \<Rightarrow> (unit, int) driver" where
  "db_with_rows rows = db_answering () rows"

text \<open>A server that cannot be reached: \<open>connect\<close> raises a \<open>pymssql.Error\<close> with the given text.\<close>

definition db_down :: "string \<Rightarrow> (unit, int) driver" where
  "db_down t = (db_with_rows []) \<lparr>connect := (\<lambda>cfg as_dict. Some (PymssqlError t))\<rparr>"

text \<open>A database whose \<open>commit\<close> raises.\<close>

definition db_commit_fails :: "exn \<Rightarrow> (unit, int) driver" where
  "db_commit_fails e = (db_with_rows []) \<lparr>commit := Some e\<rparr>"

text \<open>A database that answers every call until the connection is closed, which raises.\<close>

definition db_close_fails :: "exn \<Rightarrow> (unit, int) driver" where
  "db_close_fails e = (db_with_rows []) \<lparr>connection_close := Some e\<rparr>"

section \<open>Properties\<close>

subsection \<open>Auxiliary facts\<close>

lemma digit_val_digit_char: "d < 10 \<Longrightarrow> digit_val (digit_char d) = Some d"
proof -
  assume "d < 10"
  then have "d \<in> {0, 1, 2, 3, 4, 5, 6, 7, 8, 9}" by auto
  then show ?thesis unfolding digit_char_def digit_val_def by auto
qed

lemma read_digits_snoc:
  "read_digits acc (xs @ [c]) =
     (case read_digits acc xs of
        None \<Rightarrow> None
      | Some m \<Rightarrow> (case digit_val c of None \<Rightarrow> None | Some v \<Rightarrow> Some (10 * m + v)))"
  by (induction xs arbitrary: acc) (auto split: option.splits)

lemma str_nat_ne: "str_nat n \<noteq> []"
  by (subst str_nat.simps) simp

lemma read_digits_str_nat: "read_digits 0 (str_nat n) = Some n"
proof (induction n rule: str_nat.induct)
  case (1 n)
  show ?case
  proof (cases "n < 10")
    case True
    then show ?thesis by (simp add: str_nat.simps digit_val_digit_char)
  next
    case False
    with 1 have "read_digits 0 (str_nat (n div 10)) = Some (n div 10)" by simp
    with False show ?thesis
      by (subst str_nat.simps) (simp add: read_digits_snoc digit_val_digit_char)
  qed
qed

lemma read_nat_str_nat: "read_nat (str_nat n) = Some n"
  by (simp add: read_nat_def str_nat_ne read_digits_str_nat)

lemma digit_char_not_minus: "d < 10 \<Longrightarrow> digit_char d \<noteq> CHR ''-''"
proof -
  assume "d < 10"
  then have "d \<in> {0, 1, 2, 3, 4, 5, 6, 7, 8, 9}" by auto
  then show ?thesis unfolding digit_char_def by auto
qed

lemma hd_str_nat: "hd (str_nat n) \<noteq> CHR ''-''"
proof (induction n rule: str_nat.induct)
  case (1 n)
  show ?case
  proof (cases "n < 10")
    case True
    then show ?thesis by (simp add: str_nat.simps digit_char_not_minus)
  next
    case False
    with 1 show ?thesis by (subst str_nat.simps) (simp add: str_nat_ne)
  qed
qed

lemma read_int_str_int: "read_int (str_int i) = Some i"
proof (cases "i < 0")
  case True
  then show ?thesis by (simp add: read_int_def str_int_def read_nat_str_nat)
next
  case False
  obtain c cs where s: "str_nat (nat i) = c # cs"
    using str_nat_ne [of "nat i"] by (cases "str_nat (nat i)") auto
  with hd_str_nat [of "nat i"] have "c \<noteq> CHR ''-''" by simp
  with False s read_nat_str_nat [of "nat i"] show ?thesis
    by (simp add: read_int_def str_int_def)
qed

lemma str_int_inj: "str_int i = str_int j \<Longrightarrow> i = j"
  by (metis read_int_str_int option.inject)

lemma fst_exit_block [simp]:
  "fst (exit_block c closing p) = (case closing of None \<Rightarrow> fst p | Some e \<Rightarrow> Inl e)"
  by (simp add: exit_block_def split: option.split)

lemma snd_exit_block [simp]:
  "snd (exit_block c closing p) =
     snd p @ [case closing of None \<Rightarrow> Returned c | Some e \<Rightarrow> Raised c e]"
  by (simp add: exit_block_def split: option.split)

lemmas try_defs = with_connect_def with_cursor_def Let_def

lemma register_user_response:
  "response (register_user cfg d registration) =
     (case fst (register_user_try cfg d registration) of
        Inr u \<Rightarrow> Inr [(''status'', PStr ''success''),
                       (''message'', PStr (''Registered for option '' @ str_int (choice registration)))]
      | Inl (PymssqlError t) \<Rightarrow> Inl (HTTPException 500 ''Database operation failed.'')
      | Inl (OtherException t) \<Rightarrow> Inl (HTTPException 500 ''An unexpected server error occurred.''))"
  by (cases "register_user_try cfg d registration")
     (simp add: register_user_def split: sum.split exn.split)

lemma register_user_trace:
  "trace (register_user cfg d registration) = snd (register_user_try cfg d registration)"
  by (cases "register_user_try cfg d registration")
     (simp add: register_user_def split: sum.split exn.split)

lemma register_user_try_Inr:
  "fst (register_user_try cfg d registration) = Inr u \<longleftrightarrow>
     connect d cfg False = None \<and> cursor d = None
     \<and> (\<exists>r. callproc d sql_proc_name (email registration, choice registration) = Inr r)
     \<and> commit d = None \<and> cursor_close d = None \<and> connection_close d = None"
  by (auto simp add: register_user_try_def try_defs split: option.splits sum.splits)

lemma register_user_try_trace_returns:
  assumes "connect d cfg False = None" and "cursor d = None"
    and "callproc d sql_proc_name (email registration, choice registration) = Inr r"
    and "commit d = None" and "cursor_close d = None" and "connection_close d = None"
  shows "snd (register_user_try cfg d registration) =
      [Returned (Connect cfg False), Returned Cursor,
       Returned (Callproc sql_proc_name (email registration, choice registration)),
       Returned Commit, Returned Cursor_close, Returned Connection_close]"
  using assms by (simp add: register_user_try_def try_defs)


lemmas sample_defs = db_answering_def db_with_rows_def db_down_def db_commit_fails_def
  db_close_fails_def cfg0_def

lemma register_commit_once_success:
  "fst (register_user_try cfg d registration) = Inr u \<Longrightarrow>
     commits (snd (register_user_try cfg d registration)) = 1"
  by (auto simp add: register_user_try_Inr register_user_try_trace_returns commits_def)

lemma register_no_commit:
  "Raised c e \<in> set (snd (register_user_try cfg d registration)) \<Longrightarrow>
     c \<noteq> Cursor_close \<Longrightarrow> c \<noteq> Connection_close \<Longrightarrow>
     commits (snd (register_user_try cfg d registration)) = 0"
  by (auto simp add: register_user_try_def try_defs commits_def split: option.splits sum.splits)

lemma register_commit_follows:
  "commit_follows_callproc (snd (register_user_try cfg d registration))"
  by (simp add: register_user_try_def try_defs commit_follows_callproc_def
      split: option.split sum.split)

lemma register_commits_le:
  "commits (snd (register_user_try cfg d registration)) \<le> 1"
  by (simp add: register_user_try_def try_defs commits_def split: option.split sum.split)


lemma register_raised_propagates:
  "Raised c e \<in> set (snd (register_user_try cfg d registration)) \<Longrightarrow>
     \<exists>c' e'. fst (register_user_try cfg d registration) = Inl e'
        \<and> Raised c' e' \<in> set (snd (register_user_try cfg d registration))"
  by (auto simp add: register_user_try_def try_defs split: option.splits sum.splits)




lemma register_user_try_map_result:
  "register_user_try cfg (map_result f d) registration = register_user_try cfg d registration"
  by (simp add: register_user_try_def try_defs map_result_def split: option.split sum.split)

lemma get_user_registrations_response:
  "response (get_user_registrations cfg d user_email) =
     (case fst (get_user_registrations_try cfg d user_email) of
        Inr registrations \<Rightarrow>
          Inr [(''email'', PStr user_email), (''registrations'', PList registrations)]
      | Inl (PymssqlError t) \<Rightarrow> Inl (HTTPException 500 ''Could not retrieve registration data.'')
      | Inl (OtherException t) \<Rightarrow> Inl (HTTPException 500 ''An unexpected server error occurred.''))"
  by (cases "get_user_registrations_try cfg d user_email")
     (simp add: get_user_registrations_def split: sum.split exn.split)

lemma get_user_registrations_trace:
  "trace (get_user_registrations cfg d user_email) = snd (get_user_registrations_try cfg d user_email)"
  by (cases "get_user_registrations_try cfg d user_email")
     (simp add: get_user_registrations_def split: sum.split exn.split)

lemma get_user_registrations_fetched:
  assumes "connect d cfg True = None" and "cursor d = None"
    and "execute d sql_query user_email = None"
    and "fetchall d sql_query user_email = Inr rows"
    and "cursor_close d = None" and "connection_close d = None"
  shows "fst (get_user_registrations_try cfg d user_email) = registrations_of rows"
  using assms by (simp add: get_user_registrations_try_def try_defs)

lemma get_raised_propagates:
  "Raised c e \<in> set (snd (get_user_registrations_try cfg d user_email)) \<Longrightarrow>
     \<exists>c' e'. fst (get_user_registrations_try cfg d user_email) = Inl e'
        \<and> Raised c' e' \<in> set (snd (get_user_registrations_try cfg d user_email))"
  by (auto simp add: get_user_registrations_try_def try_defs split: option.splits sum.splits)



lemma registrations_of_all:
  "\<forall>row \<in> set rows. row ''RegNumber'' \<noteq> None \<Longrightarrow>
     registrations_of rows = Inr (map (\<lambda>row. the (row ''RegNumber'')) rows)"
  by (induction rows) auto

lemma raised_other_in:
  "Raised c (OtherException t) \<in> set tr \<Longrightarrow> list_ex raised_other tr"
  by (metis list_ex_iff raised_other.simps(1))




lemma str_int_3: "str_int 3 = ''3''"
  by (simp add: str_int_def str_nat.simps digit_char_def)

lemma str_int_minus_12: "str_int (- 12) = ''-12''"
  by (simp add: str_int_def str_nat.simps digit_char_def)


lemma register_user_returns:
  assumes "connect d cfg False = None" and "cursor d = None"
    and "callproc d sql_proc_name (email registration, choice registration) = Inr r"
    and "commit d = None" and "cursor_close d = None" and "connection_close d = None"
  shows "response (register_user cfg d registration) =
     Inr [(''status'', PStr ''success''),
          (''message'', PStr (''Registered for option '' @ str_int (choice registration)))]"
proof -
  from assms have "fst (register_user_try cfg d registration) = Inr ()"
    by (simp add: register_user_try_Inr)
  then show ?thesis by (simp add: register_user_response)
qed

lemma register_user_Inr:
  assumes "response (register_user cfg d registration) = Inr b"
  shows "b = [(''status'', PStr ''success''),
              (''message'', PStr (''Registered for option '' @ str_int (choice registration)))]"
  using assms by (simp add: register_user_response split: sum.splits exn.splits)

lemma register_user_Inr_iff:
  "(\<exists>b. response (register_user cfg d registration) = Inr b) \<longleftrightarrow>
     fst (register_user_try cfg d registration) = Inr ()"
  by (auto simp add: register_user_response split: sum.splits exn.splits)


lemma get_user_registrations_Inr:
  assumes "fst (get_user_registrations_try cfg d user_email) = Inr regs"
  shows "response (get_user_registrations cfg d user_email) =
     Inr [(''email'', PStr user_email), (''registrations'', PList regs)]"
  using assms by (simp add: get_user_registrations_response)

text \<open>
  When the two \<open>close\<close> calls return, at most one call raises in a request, so a
  \<open>pymssql.Error\<close> in the trace is then the only exception in it.
\<close>

lemma register_one_failure:
  "cursor_close d = None \<Longrightarrow> connection_close d = None \<Longrightarrow>
     Raised c (PymssqlError t) \<in> set (snd (register_user_try cfg d registration)) \<Longrightarrow>
     \<not> list_ex raised_other (snd (register_user_try cfg d registration))"
  by (auto simp add: register_user_try_def try_defs split: option.splits sum.splits)

lemma get_one_failure:
  "cursor_close d = None \<Longrightarrow> connection_close d = None \<Longrightarrow>
     Raised c (PymssqlError t) \<in> set (snd (get_user_registrations_try cfg d user_email)) \<Longrightarrow>
     \<not> list_ex raised_other (snd (get_user_registrations_try cfg d user_email))"
  by (auto simp add: get_user_registrations_try_def try_defs split: option.splits sum.splits)


subsection \<open>POST /register: the success payload\<close>

text \<open>
  C1. For every registration \<open>{email, choice}\<close>, when the driver calls of the request
  (\<open>connect\<close>, \<open>cursor\<close>, the stored procedure, \<open>commit\<close> and the two \<open>close\<close>) return
  without raising, the handler returns the dict
  \<open>{status: "success", message: "Registered for option " + str(choice)}\<close>, and the
  digits after the fixed words, read back as a decimal numeral, are the integer that was
  supplied.
\<close>

theorem register_message_embeds_choice:
  assumes "connect d cfg False = None" and "cursor d = None"
    and "callproc d sql_proc_name (email registration, choice registration) = Inr r"
    and "commit d = None" and "cursor_close d = None" and "connection_close d = None"
  shows "response (register_user cfg d registration) =
     Inr [(''status'', PStr ''success''),
          (''message'', PStr (''Registered for option '' @ str_int (choice registration)))]
     \<and> read_int (str_int (choice registration)) = Some (choice registration)"
  using register_user_returns [OF assms] by (simp add: read_int_str_int)

text \<open>Choice 3 against a healthy database, and a negative choice.\<close>

theorem register_message_embeds_choice_witness:
  "response (register_user cfg0 (db_with_rows []) \<lparr>email = ''a@b.com'', choice = 3\<rparr>) =
     Inr [(''status'', PStr ''success''), (''message'', PStr ''Registered for option 3'')]
   \<and> read_int ''3'' = Some 3
   \<and> response (register_user cfg0 (db_with_rows []) \<lparr>email = ''a@b.com'', choice = - 12\<rparr>) =
     Inr [(''status'', PStr ''success''), (''message'', PStr ''Registered for option -12'')]
   \<and> read_int ''-12'' = Some (- 12)"
  using register_message_embeds_choice [of "db_with_rows []" cfg0
      "\<lparr>email = ''a@b.com'', choice = 3\<rparr>" "()"]
    register_message_embeds_choice [of "db_with_rows []" cfg0
      "\<lparr>email = ''a@b.com'', choice = - 12\<rparr>" "()"]
  by (simp add: db_with_rows_def db_answering_def str_int_3 str_int_minus_12)

subsection \<open>GET /registrations: the error responses\<close>

text \<open>
  C2, as the code has it. Whatever exception leaves the \<open>try\<close> block of the lookup
  handler, the response is a 500; its detail is \<open>Could not retrieve registration data.\<close>
  for a \<open>pymssql.Error\<close> and \<open>An unexpected server error occurred.\<close> for any other
  exception. Only the second detail is the one POST /register uses.
\<close>

theorem lookup_error_details:
  assumes "fst (get_user_registrations_try cfg d user_email) = Inl e"
  shows "response (get_user_registrations cfg d user_email) =
     Inl (HTTPException 500
       (case e of PymssqlError t \<Rightarrow> ''Could not retrieve registration data.''
                | OtherException t \<Rightarrow> ''An unexpected server error occurred.''))"
  using assms by (simp add: get_user_registrations_response split: exn.split)

text \<open>
  Both kinds of exception occur: a server that refuses the login, and a row without
  the key \<open>RegNumber\<close>.
\<close>

theorem lookup_error_details_witness:
  "fst (get_user_registrations_try cfg0 (db_down ''Login failed'') ''a@b.com'') =
      Inl (PymssqlError ''Login failed'')
   \<and> response (get_user_registrations cfg0 (db_down ''Login failed'') ''a@b.com'') =
      Inl (HTTPException 500 ''Could not retrieve registration data.'')
   \<and> response (get_user_registrations cfg0 (db_with_rows [Map.empty]) ''a@b.com'') =
      Inl (HTTPException 500 ''An unexpected server error occurred.'')"
proof -
  have a: "fst (get_user_registrations_try cfg0 (db_down ''Login failed'') ''a@b.com'') =
      Inl (PymssqlError ''Login failed'')"
    by (simp add: get_user_registrations_try_def try_defs sample_defs)
  have b: "fst (get_user_registrations_try cfg0 (db_with_rows [Map.empty]) ''a@b.com'') =
      Inl (OtherException (CHR 0x27 # ''RegNumber'' @ [CHR 0x27]))"
    by (simp add: get_user_registrations_try_def try_defs sample_defs)
  from a lookup_error_details [OF a] lookup_error_details [OF b]
  show ?thesis by simp
qed

text \<open>
  C2, as it is written, fails: when \<open>connect\<close> raises a \<open>pymssql.Error\<close> in the lookup
  handler, the response is neither of the two error responses of POST /register.
\<close>

theorem lookup_db_error_detail_counterexample:
  "Raised (Connect cfg0 True) (PymssqlError ''Login failed'')
     \<in> set (trace (get_user_registrations cfg0 (db_down ''Login failed'') ''a@b.com''))
   \<and> response (get_user_registrations cfg0 (db_down ''Login failed'') ''a@b.com'')
     \<noteq> Inl (HTTPException 500 ''Database operation failed.'')
   \<and> response (get_user_registrations cfg0 (db_down ''Login failed'') ''a@b.com'')
     \<noteq> Inl (HTTPException 500 ''An unexpected server error occurred.'')"
  by (simp add: get_user_registrations_response get_user_registrations_trace
      get_user_registrations_try_def try_defs sample_defs)

subsection \<open>GET /registrations: the rows\<close>

text \<open>
  C3. When the select for an email returns no rows (and the driver calls around it
  return), the lookup handler returns the dict \<open>{email, registrations: []}\<close> and raises
  nothing.
\<close>

theorem lookup_no_rows_empty_list:
  assumes "connect d cfg True = None" and "cursor d = None"
    and "execute d sql_query user_email = None"
    and "fetchall d sql_query user_email = Inr []"
    and "cursor_close d = None" and "connection_close d = None"
  shows "response (get_user_registrations cfg d user_email) =
     Inr [(''email'', PStr user_email), (''registrations'', PList [])]"
  using get_user_registrations_fetched [OF assms]
  by (intro get_user_registrations_Inr) simp

theorem lookup_no_rows_empty_list_witness:
  "response (get_user_registrations cfg0 (db_with_rows []) ''nobody@x.com'') =
     Inr [(''email'', PStr ''nobody@x.com''), (''registrations'', PList [])]"
  using lookup_no_rows_empty_list [of "db_with_rows []" cfg0 "''nobody@x.com''"]
  by (simp add: db_with_rows_def db_answering_def)

text \<open>
  C4. When the select returns the rows \<open>rows\<close>, each with its \<open>RegNumber\<close>, the list in the
  response is the \<open>RegNumber\<close> of each row, in the order of the rows: as many entries as
  rows, duplicates kept, nothing sorted.
\<close>

theorem lookup_rows_in_order:
  assumes "connect d cfg True = None" and "cursor d = None"
    and "execute d sql_query user_email = None"
    and "fetchall d sql_query user_email = Inr rows"
    and "cursor_close d = None" and "connection_close d = None"
    and "\<forall>row \<in> set rows. row ''RegNumber'' \<noteq> None"
  shows "response (get_user_registrations cfg d user_email) =
     Inr [(''email'', PStr user_email),
          (''registrations'', PList (map (\<lambda>row. the (row ''RegNumber'')) rows))]
     \<and> length (map (\<lambda>row. the (row ''RegNumber'')) rows) = length rows"
proof -
  from assms(1-6) have "fst (get_user_registrations_try cfg d user_email) = registrations_of rows"
    by (rule get_user_registrations_fetched)
  with assms(7) have "fst (get_user_registrations_try cfg d user_email)
      = Inr (map (\<lambda>row. the (row ''RegNumber'')) rows)"
    by (simp add: registrations_of_all)
  then show ?thesis by (simp add: get_user_registrations_Inr)
qed

text \<open>Three rows, out of order and with a duplicate, come back as they are.\<close>

theorem lookup_rows_in_order_witness:
  "response (get_user_registrations cfg0
       (db_with_rows [[''RegNumber'' \<mapsto> 7], [''RegNumber'' \<mapsto> 1], [''RegNumber'' \<mapsto> 7]]) ''a@b.com'') =
     Inr [(''email'', PStr ''a@b.com''), (''registrations'', PList [7, 1, 7])]"
  using lookup_rows_in_order [of
      "db_with_rows [[''RegNumber'' \<mapsto> 7], [''RegNumber'' \<mapsto> 1], [''RegNumber'' \<mapsto> 7]]"
      cfg0 "''a@b.com''" "[[''RegNumber'' \<mapsto> 7], [''RegNumber'' \<mapsto> 1], [''RegNumber'' \<mapsto> 7]]"]
  by (simp add: db_with_rows_def db_answering_def)

subsection \<open>Database errors on both endpoints\<close>

text \<open>
  C5. When a driver call raises a \<open>pymssql.Error\<close> during either handler, whichever call
  it is (a \<open>close\<close> included) and whatever the text \<open>t\<close> of the error, the response is a
  500 with a fixed detail in which \<open>t\<close> does not occur. The detail is the endpoint's
  database message when no call of the request raised anything but a \<open>pymssql.Error\<close>,
  and so it is whenever the two \<open>close\<close> calls return (the last two conjuncts). Otherwise
  it is that message or the endpoint's other fixed message, according to the exception
  that was raised last.
\<close>

theorem db_error_fixed_detail:
  "(Raised c (PymssqlError t) \<in> set (trace (register_user cfg d registration)) \<longrightarrow>
      \<not> list_ex raised_other (trace (register_user cfg d registration)) \<longrightarrow>
      response (register_user cfg d registration) =
        Inl (HTTPException 500 ''Database operation failed.''))
   \<and> (Raised c (PymssqlError t) \<in> set (trace (register_user cfg d registration)) \<longrightarrow>
      response (register_user cfg d registration) =
        Inl (HTTPException 500 ''Database operation failed.'')
      \<or> response (register_user cfg d registration) =
        Inl (HTTPException 500 ''An unexpected server error occurred.''))
   \<and> (Raised c' (PymssqlError t') \<in> set (trace (get_user_registrations cfg d user_email)) \<longrightarrow>
      \<not> list_ex raised_other (trace (get_user_registrations cfg d user_email)) \<longrightarrow>
      response (get_user_registrations cfg d user_email) =
        Inl (HTTPException 500 ''Could not retrieve registration data.''))
   \<and> (Raised c' (PymssqlError t') \<in> set (trace (get_user_registrations cfg d user_email)) \<longrightarrow>
      response (get_user_registrations cfg d user_email) =
        Inl (HTTPException 500 ''Could not retrieve registration data.'')
      \<or> response (get_user_registrations cfg d user_email) =
        Inl (HTTPException 500 ''An unexpected server error occurred.''))
   \<and> (cursor_close d = None \<longrightarrow> connection_close d = None \<longrightarrow>
      Raised c (PymssqlError t) \<in> set (trace (register_user cfg d registration)) \<longrightarrow>
      response (register_user cfg d registration) =
        Inl (HTTPException 500 ''Database operation failed.''))
   \<and> (cursor_close d = None \<longrightarrow> connection_close d = None \<longrightarrow>
      Raised c' (PymssqlError t') \<in> set (trace (get_user_registrations cfg d user_email)) \<longrightarrow>
      response (get_user_registrations cfg d user_email) =
        Inl (HTTPException 500 ''Could not retrieve registration data.''))"
proof -
  have reg: "\<exists>c2 e2. fst (register_user_try cfg d registration) = Inl e2
      \<and> Raised c2 e2 \<in> set (snd (register_user_try cfg d registration))"
    if "Raised c (PymssqlError t) \<in> set (trace (register_user cfg d registration))"
    using that register_raised_propagates [of c "PymssqlError t" cfg d registration]
    by (simp add: register_user_trace)
  have get: "\<exists>c2 e2. fst (get_user_registrations_try cfg d user_email) = Inl e2
      \<and> Raised c2 e2 \<in> set (snd (get_user_registrations_try cfg d user_email))"
    if "Raised c' (PymssqlError t') \<in> set (trace (get_user_registrations cfg d user_email))"
    using that get_raised_propagates [of c' "PymssqlError t'" cfg d user_email]
    by (simp add: get_user_registrations_trace)
  have r1: "response (register_user cfg d registration) =
        Inl (HTTPException 500 ''Database operation failed.'')"
    if a: "Raised c (PymssqlError t) \<in> set (trace (register_user cfg d registration))"
      and b: "\<not> list_ex raised_other (trace (register_user cfg d registration))"
  proof -
    from reg [OF a] obtain c2 e2 where f: "fst (register_user_try cfg d registration) = Inl e2"
      and m: "Raised c2 e2 \<in> set (snd (register_user_try cfg d registration))" by blast
    from b m have "\<exists>t2. e2 = PymssqlError t2"
      using raised_other_in [of c2 _ "snd (register_user_try cfg d registration)"]
      by (cases e2) (auto simp add: register_user_trace)
    with f show ?thesis by (auto simp add: register_user_response)
  qed
  have r2: "response (register_user cfg d registration) =
        Inl (HTTPException 500 ''Database operation failed.'')
      \<or> response (register_user cfg d registration) =
        Inl (HTTPException 500 ''An unexpected server error occurred.'')"
    if a: "Raised c (PymssqlError t) \<in> set (trace (register_user cfg d registration))"
    using reg [OF a] by (auto simp add: register_user_response split: exn.splits)
  have g1: "response (get_user_registrations cfg d user_email) =
        Inl (HTTPException 500 ''Could not retrieve registration data.'')"
    if a: "Raised c' (PymssqlError t') \<in> set (trace (get_user_registrations cfg d user_email))"
      and b: "\<not> list_ex raised_other (trace (get_user_registrations cfg d user_email))"
  proof -
    from get [OF a] obtain c2 e2
      where f: "fst (get_user_registrations_try cfg d user_email) = Inl e2"
      and m: "Raised c2 e2 \<in> set (snd (get_user_registrations_try cfg d user_email))" by blast
    from b m have "\<exists>t2. e2 = PymssqlError t2"
      using raised_other_in [of c2 _ "snd (get_user_registrations_try cfg d user_email)"]
      by (cases e2) (auto simp add: get_user_registrations_trace)
    with f show ?thesis by (auto simp add: get_user_registrations_response)
  qed
  have g2: "response (get_user_registrations cfg d user_email) =
        Inl (HTTPException 500 ''Could not retrieve registration data.'')
      \<or> response (get_user_registrations cfg d user_email) =
        Inl (HTTPException 500 ''An unexpected server error occurred.'')"
    if a: "Raised c' (PymssqlError t') \<in> set (trace (get_user_registrations cfg d user_email))"
    using get [OF a] by (auto simp add: get_user_registrations_response split: exn.splits)
  have r3: "response (register_user cfg d registration) =
        Inl (HTTPException 500 ''Database operation failed.'')"
    if "cursor_close d = None" and "connection_close d = None"
      and a: "Raised c (PymssqlError t) \<in> set (trace (register_user cfg d registration))"
    using that register_one_failure [of d c t cfg registration] r1
    by (simp add: register_user_trace)
  have g3: "response (get_user_registrations cfg d user_email) =
        Inl (HTTPException 500 ''Could not retrieve registration data.'')"
    if "cursor_close d = None" and "connection_close d = None"
      and a: "Raised c' (PymssqlError t') \<in> set (trace (get_user_registrations cfg d user_email))"
    using that get_one_failure [of d c' t' cfg user_email] g1
    by (simp add: get_user_registrations_trace)
  from r1 r2 g1 g2 r3 g3 show ?thesis by blast
qed

text \<open>
  A server that refuses the login, on both endpoints; and a closing connection that
  raises a \<open>pymssql.Error\<close> after the commit.
\<close>

theorem db_error_fixed_detail_witness:
  "Raised (Connect cfg0 False) (PymssqlError ''Login failed for user api'')
     \<in> set (trace (register_user cfg0 (db_down ''Login failed for user api'')
               \<lparr>email = ''a@b.com'', choice = 3\<rparr>))
   \<and> \<not> list_ex raised_other (trace (register_user cfg0 (db_down ''Login failed for user api'')
               \<lparr>email = ''a@b.com'', choice = 3\<rparr>))
   \<and> response (register_user cfg0 (db_down ''Login failed for user api'')
        \<lparr>email = ''a@b.com'', choice = 3\<rparr>) =
      Inl (HTTPException 500 ''Database operation failed.'')
   \<and> Raised (Connect cfg0 True) (PymssqlError ''Login failed for user api'')
     \<in> set (trace (get_user_registrations cfg0 (db_down ''Login failed for user api'') ''a@b.com''))
   \<and> \<not> list_ex raised_other
       (trace (get_user_registrations cfg0 (db_down ''Login failed for user api'') ''a@b.com''))
   \<and> response (get_user_registrations cfg0 (db_down ''Login failed for user api'') ''a@b.com'') =
      Inl (HTTPException 500 ''Could not retrieve registration data.'')
   \<and> response (register_user cfg0 (db_close_fails (PymssqlError ''connection reset''))
        \<lparr>email = ''a@b.com'', choice = 3\<rparr>) =
      Inl (HTTPException 500 ''Database operation failed.'')"
proof -
  let ?R = "register_user cfg0 (db_down ''Login failed for user api'')
      \<lparr>email = ''a@b.com'', choice = 3\<rparr>"
  let ?G = "get_user_registrations cfg0 (db_down ''Login failed for user api'') ''a@b.com''"
  let ?C = "register_user cfg0 (db_close_fails (PymssqlError ''connection reset''))
      \<lparr>email = ''a@b.com'', choice = 3\<rparr>"
  have tr: "trace ?R = [Raised (Connect cfg0 False) (PymssqlError ''Login failed for user api'')]"
    by (simp add: register_user_trace register_user_try_def try_defs sample_defs)
  have tg: "trace ?G = [Raised (Connect cfg0 True) (PymssqlError ''Login failed for user api'')]"
    by (simp add: get_user_registrations_trace get_user_registrations_try_def try_defs sample_defs)
  have tc: "trace ?C = [Returned (Connect cfg0 False), Returned Cursor,
      Returned (Callproc sql_proc_name (''a@b.com'', 3)), Returned Commit, Returned Cursor_close,
      Raised Connection_close (PymssqlError ''connection reset'')]"
    by (simp add: register_user_trace register_user_try_def try_defs sample_defs)
  have a: "Raised (Connect cfg0 False) (PymssqlError ''Login failed for user api'') \<in> set (trace ?R)"
    and a': "\<not> list_ex raised_other (trace ?R)"
    by (simp_all add: tr)
  have b: "Raised (Connect cfg0 True) (PymssqlError ''Login failed for user api'') \<in> set (trace ?G)"
    and b': "\<not> list_ex raised_other (trace ?G)"
    by (simp_all add: tg)
  have c: "Raised Connection_close (PymssqlError ''connection reset'') \<in> set (trace ?C)"
    and c': "\<not> list_ex raised_other (trace ?C)"
    by (simp_all add: tc)
  note t1 = db_error_fixed_detail [of "Connect cfg0 False" "''Login failed for user api''" cfg0
      "db_down ''Login failed for user api''" "\<lparr>email = ''a@b.com'', choice = 3\<rparr>"
      "Connect cfg0 True" "''Login failed for user api''" "''a@b.com''"]
  note t2 = db_error_fixed_detail [of Connection_close "''connection reset''" cfg0
      "db_close_fails (PymssqlError ''connection reset'')" "\<lparr>email = ''a@b.com'', choice = 3\<rparr>"]
  from a a' t1 have r: "response ?R = Inl (HTTPException 500 ''Database operation failed.'')"
    by blast
  from b b' t1 have g: "response ?G = Inl (HTTPException 500 ''Could not retrieve registration data.'')"
    by blast
  from c c' t2 have k: "response ?C = Inl (HTTPException 500 ''Database operation failed.'')"
    by blast
  from a a' b b' r g k show ?thesis by blast
qed

subsection \<open>POST /register: the commit\<close>

text \<open>
  C6, as the code has it. A call of the handler that returns the success payload has
  made exactly one commit that went through, and no call makes more than one; \<open>commit\<close>
  is only ever called directly after \<open>callproc\<close> has returned; and when \<open>connect\<close>,
  \<open>cursor\<close>, \<open>callproc\<close> or \<open>commit\<close> raises, no commit has gone through.
\<close>

theorem register_commits_once:
  "((\<exists>p. response (register_user cfg d registration) = Inr p) \<longrightarrow>
      commits (trace (register_user cfg d registration)) = 1)
   \<and> (Raised c e \<in> set (trace (register_user cfg d registration)) \<longrightarrow>
        c \<noteq> Cursor_close \<longrightarrow> c \<noteq> Connection_close \<longrightarrow>
        commits (trace (register_user cfg d registration)) = 0)
   \<and> commit_follows_callproc (trace (register_user cfg d registration))
   \<and> commits (trace (register_user cfg d registration)) \<le> 1"
proof (intro conjI impI)
  assume "\<exists>p. response (register_user cfg d registration) = Inr p"
  then have "fst (register_user_try cfg d registration) = Inr ()"
    by (simp add: register_user_Inr_iff)
  then show "commits (trace (register_user cfg d registration)) = 1"
    by (simp add: register_user_trace register_commit_once_success)
next
  assume "Raised c e \<in> set (trace (register_user cfg d registration))"
    and "c \<noteq> Cursor_close" and "c \<noteq> Connection_close"
  then show "commits (trace (register_user cfg d registration)) = 0"
    by (simp add: register_user_trace register_no_commit)
next
  show "commit_follows_callproc (trace (register_user cfg d registration))"
    by (simp add: register_user_trace register_commit_follows)
next
  show "commits (trace (register_user cfg d registration)) \<le> 1"
    using register_commits_le [of cfg d registration] by (simp add: register_user_trace)
qed

text \<open>A healthy database, and one whose \<open>commit\<close> raises.\<close>

theorem register_commits_once_witness:
  "commits (trace (register_user cfg0 (db_with_rows []) \<lparr>email = ''a@b.com'', choice = 3\<rparr>)) = 1
   \<and> Raised Commit (PymssqlError ''deadlock'')
       \<in> set (trace (register_user cfg0 (db_commit_fails (PymssqlError ''deadlock''))
                \<lparr>email = ''a@b.com'', choice = 3\<rparr>))
   \<and> commits (trace (register_user cfg0 (db_commit_fails (PymssqlError ''deadlock''))
         \<lparr>email = ''a@b.com'', choice = 3\<rparr>)) = 0
   \<and> commit_follows_callproc (trace (register_user cfg0 (db_commit_fails (PymssqlError ''deadlock''))
         \<lparr>email = ''a@b.com'', choice = 3\<rparr>))"
proof -
  let ?ok = "register_user cfg0 (db_with_rows []) \<lparr>email = ''a@b.com'', choice = 3\<rparr>"
  let ?ko = "register_user cfg0 (db_commit_fails (PymssqlError ''deadlock''))
      \<lparr>email = ''a@b.com'', choice = 3\<rparr>"
  have a: "\<exists>p. response ?ok = Inr p"
    by (simp add: register_user_Inr_iff register_user_try_Inr sample_defs)
  have b: "Raised Commit (PymssqlError ''deadlock'') \<in> set (trace ?ko)"
    by (simp add: register_user_trace register_user_try_def try_defs sample_defs)
  note t1 = register_commits_once [of cfg0 "db_with_rows []" "\<lparr>email = ''a@b.com'', choice = 3\<rparr>"]
  note t2 = register_commits_once [of cfg0 "db_commit_fails (PymssqlError ''deadlock'')"
      "\<lparr>email = ''a@b.com'', choice = 3\<rparr>" Commit "PymssqlError ''deadlock''"]
  from a t1 have "commits (trace ?ok) = 1" by blast
  moreover from b t2 have "commits (trace ?ko) = 0" by simp
  moreover from t2 have "commit_follows_callproc (trace ?ko)" by blast
  ultimately show ?thesis using b by blast
qed

text \<open>
  C6, as it is written, fails: the \<open>with\<close> blocks are left inside the \<open>try\<close>, after the
  commit. When closing the connection raises, the request ends with the 500 response and
  the commit has gone through.
\<close>

theorem register_commit_then_close_fails_counterexample:
  "response (register_user cfg0 (db_close_fails (PymssqlError ''connection reset''))
       \<lparr>email = ''a@b.com'', choice = 3\<rparr>) =
     Inl (HTTPException 500 ''Database operation failed.'')
   \<and> commits (trace (register_user cfg0 (db_close_fails (PymssqlError ''connection reset''))
       \<lparr>email = ''a@b.com'', choice = 3\<rparr>)) = 1"
  by (simp add: register_user_response register_user_trace register_user_try_def try_defs
      sample_defs commits_def)

subsection \<open>POST /register: malformed bodies\<close>




subsection \<open>Loading the configuration\<close>




subsection \<open>POST /register: what the success payload depends on\<close>

text \<open>
  C9. Two registrations with the same choice, whatever their emails (and whatever the
  configuration and the database), that both succeed get the same response body.
\<close>

theorem success_body_ignores_email:
  assumes "response (register_user cfg d \<lparr>email = e1, choice = c\<rparr>) = Inr b1"
    and "response (register_user cfg' d' \<lparr>email = e2, choice = c\<rparr>) = Inr b2"
  shows "b1 = b2"
  using register_user_Inr [OF assms(1)] register_user_Inr [OF assms(2)] by simp

theorem success_body_ignores_email_witness:
  "response (register_user cfg0 (db_with_rows []) \<lparr>email = ''a@b.com'', choice = 3\<rparr>) =
     (Inr [(''status'', PStr ''success''), (''message'', PStr ''Registered for option 3'')]
        :: HTTPException + int dict)
   \<and> response (register_user cfg0 (db_with_rows []) \<lparr>email = ''someone.else@x.org'', choice = 3\<rparr>) =
     response (register_user cfg0 (db_with_rows []) \<lparr>email = ''a@b.com'', choice = 3\<rparr>)"
proof -
  have a: "response (register_user cfg0 (db_with_rows []) \<lparr>email = ''a@b.com'', choice = 3\<rparr>) =
     Inr [(''status'', PStr ''success''), (''message'', PStr ''Registered for option 3'')]"
    by (simp add: register_user_response register_user_try_def try_defs sample_defs str_int_3)
  have b: "response (register_user cfg0 (db_with_rows []) \<lparr>email = ''someone.else@x.org'', choice = 3\<rparr>) =
     Inr [(''status'', PStr ''success''), (''message'', PStr ''Registered for option 3'')]"
    by (simp add: register_user_response register_user_try_def try_defs sample_defs str_int_3)
  from success_body_ignores_email [OF a b] a b show ?thesis by simp
qed

text \<open>
  C10. The handler does not look at what \<open>callproc\<close> returns, and success is decided by
  the absence of an exception alone: the handler returns the success payload exactly
  when no driver call of the request raises, and replacing every value that the
  procedure call returns by any other value leaves response, log and trace as they were.
\<close>

theorem success_ignores_procedure_result:
  "(response (register_user cfg d registration) =
       Inr [(''status'', PStr ''success''),
            (''message'', PStr (''Registered for option '' @ str_int (choice registration)))]
     \<longleftrightarrow>
       connect d cfg False = None \<and> cursor d = None
       \<and> (\<exists>r. callproc d sql_proc_name (email registration, choice registration) = Inr r)
       \<and> commit d = None \<and> cursor_close d = None \<and> connection_close d = None)
   \<and> register_user cfg (map_result f d) registration = register_user cfg d registration"
proof
  have "response (register_user cfg d registration) =
       Inr [(''status'', PStr ''success''),
            (''message'', PStr (''Registered for option '' @ str_int (choice registration)))]
     \<longleftrightarrow> fst (register_user_try cfg d registration) = Inr ()"
    by (auto simp add: register_user_response split: sum.splits exn.splits)
  then show "response (register_user cfg d registration) =
       Inr [(''status'', PStr ''success''),
            (''message'', PStr (''Registered for option '' @ str_int (choice registration)))]
     \<longleftrightarrow>
       connect d cfg False = None \<and> cursor d = None
       \<and> (\<exists>r. callproc d sql_proc_name (email registration, choice registration) = Inr r)
       \<and> commit d = None \<and> cursor_close d = None \<and> connection_close d = None"
    by (simp add: register_user_try_Inr)
  show "register_user cfg (map_result f d) registration = register_user cfg d registration"
    by (simp add: register_user_def register_user_try_map_result)
qed

text \<open>
  A procedure that returns 7, and the same database with 8 returned instead; and a
  database whose \<open>commit\<close> raises, where the payload is not returned.
\<close>

theorem success_ignores_procedure_result_witness:
  "callproc (db_answering (7 :: int) []) sql_proc_name (''a@b.com'', 3) = Inr 7
   \<and> callproc (map_result (\<lambda>r. r + 1) (db_answering (7 :: int) [])) sql_proc_name (''a@b.com'', 3)
       = Inr 8
   \<and> register_user cfg0 (map_result (\<lambda>r. r + 1) (db_answering (7 :: int) []))
       \<lparr>email = ''a@b.com'', choice = 3\<rparr> =
     register_user cfg0 (db_answering (7 :: int) []) \<lparr>email = ''a@b.com'', choice = 3\<rparr>
   \<and> response (register_user cfg0 (db_answering (7 :: int) []) \<lparr>email = ''a@b.com'', choice = 3\<rparr>) =
     Inr [(''status'', PStr ''success''), (''message'', PStr ''Registered for option 3'')]
   \<and> response (register_user cfg0 (db_commit_fails (OtherException ''timeout''))
       \<lparr>email = ''a@b.com'', choice = 3\<rparr>) \<noteq>
     Inr [(''status'', PStr ''success''), (''message'', PStr ''Registered for option 3'')]"
proof -
  note t1 = success_ignores_procedure_result [of cfg0 "db_answering (7 :: int) []"
      "\<lparr>email = ''a@b.com'', choice = 3\<rparr>" "\<lambda>r. r + 1"]
  note t2 = success_ignores_procedure_result [of cfg0 "db_commit_fails (OtherException ''timeout'')"
      "\<lparr>email = ''a@b.com'', choice = 3\<rparr>" id]
  have a: "callproc (db_answering (7 :: int) []) sql_proc_name (''a@b.com'', 3) = Inr 7"
    by (simp add: db_answering_def)
  have b: "callproc (map_result (\<lambda>r. r + 1) (db_answering (7 :: int) [])) sql_proc_name
      (''a@b.com'', 3) = Inr 8"
    by (simp add: map_result_def db_answering_def)
  from t1 have c: "register_user cfg0 (map_result (\<lambda>r. r + 1) (db_answering (7 :: int) []))
       \<lparr>email = ''a@b.com'', choice = 3\<rparr> =
     register_user cfg0 (db_answering (7 :: int) []) \<lparr>email = ''a@b.com'', choice = 3\<rparr>" by blast
  from t1 have e: "response (register_user cfg0 (db_answering (7 :: int) [])
       \<lparr>email = ''a@b.com'', choice = 3\<rparr>) =
     Inr [(''status'', PStr ''success''), (''message'', PStr ''Registered for option 3'')]"
    by (simp add: db_answering_def str_int_3)
  from t2 have f: "response (register_user cfg0 (db_commit_fails (OtherException ''timeout''))
       \<lparr>email = ''a@b.com'', choice = 3\<rparr>) \<noteq>
     Inr [(''status'', PStr ''success''), (''message'', PStr ''Registered for option 3'')]"
    by (simp add: sample_defs str_int_3)
  from a b c e f show ?thesis by blast
qed

end
